theory Spec2Isabelle
  imports Main
begin

section \<open>Python values\<close>

text \<open>
  A Python \<open>str\<close> is a sequence of Unicode code points; it is modelled as the list of
  their numbers, so that the literals of the source (most of them Chinese) are written as
  numerals and \<open>str.strip\<close> sees code points, not bytes.
\<close>

type_synonym pystr = "nat list"

definition asc :: "string \<Rightarrow> pystr" where
  "asc s = map of_char s"

text \<open>
  The values the loop reads out of the model's JSON arguments with \<open>dict.get\<close>:
  \<open>None\<close> (key absent, or JSON null), a string, or a value of another type (number,
  boolean, list, dict), kept as its type name and its \<open>str()\<close> rendering.
\<close>

datatype pyval = PyNone | PyStr pystr | PyOther pystr pystr

fun py_str :: "pyval \<Rightarrow> pystr" where
  "py_str PyNone = asc ''None''"
| "py_str (PyStr s) = s"
| "py_str (PyOther ty rendering) = rendering"

fun type_name :: "pyval \<Rightarrow> pystr" where
  "type_name PyNone = asc ''NoneType''"
| "type_name (PyStr s) = asc ''str''"
| "type_name (PyOther ty rendering) = ty"

text \<open>The result of \<open>json.loads\<close>: a dict, or a JSON value of another type (by type name).\<close>

datatype parsed = ArgsDict "(pystr \<times> pyval) list" | ArgsOther pystr

text \<open>
  Exceptions. \<open>Exception\<close> stands for any exception object \<open>e\<close> raised by a collaborator
  (sandbox library, model client, pandas), carrying \<open>str(e)\<close>; the others are the errors
  the interpreter or the standard library raises inside the loop itself. All are subclasses
  of Python's \<open>Exception\<close>, so \<open>except Exception\<close> catches each of them.
\<close>

datatype exn =
    Exception pystr
  | JSONDecodeError pystr
  | AttributeError pystr
  | TypeError pystr
  | UnboundLocalError pystr

fun str_exn :: "exn \<Rightarrow> pystr" where
  "str_exn (Exception m) = m"
| "str_exn (JSONDecodeError m) = m"
| "str_exn (AttributeError m) = m"
| "str_exn (TypeError m) = m"
| "str_exn (UnboundLocalError m) = m"

definition bind_exn :: "exn + 'a \<Rightarrow> ('a \<Rightarrow> exn + 'b) \<Rightarrow> exn + 'b" where
  "bind_exn m f = (case m of Inl e \<Rightarrow> Inl e | Inr x \<Rightarrow> f x)"

subsection \<open>Whitespace and \<open>str.strip()\<close>\<close>

text \<open>
  \<open>str.strip()\<close> without arguments removes leading and trailing characters for which
  \<open>str.isspace\<close> holds: the code points with bidirectional class WS, B or S or category Zs.
\<close>

definition py_isspace :: "nat \<Rightarrow> bool" where
  "py_isspace c =
     ((9 \<le> c \<and> c \<le> 13) \<or> (28 \<le> c \<and> c \<le> 32) \<or> c = 133 \<or> c = 160 \<or> c = 5760
      \<or> (8192 \<le> c \<and> c \<le> 8202) \<or> c = 8232 \<or> c = 8233 \<or> c = 8239 \<or> c = 8287
      \<or> c = 12288)"

definition py_strip :: "pystr \<Rightarrow> pystr" where
  "py_strip s = rev (dropWhile py_isspace (rev (dropWhile py_isspace s)))"

subsection \<open>\<open>str.join\<close>, \<open>str(int)\<close>, \<open>os.path\<close>\<close>

text \<open>
  \<open>sep.join(items)\<close> raises TypeError at the first item that is not a string; the
  error case carries the message of the exception.
\<close>

fun str_nat :: "nat \<Rightarrow> pystr" where
  "str_nat n = (if n < 10 then [48 + n] else str_nat (n div 10) @ [48 + n mod 10])"

declare str_nat.simps [simp del]

definition join_error :: "nat \<Rightarrow> pyval \<Rightarrow> pystr" where
  "join_error i v =
     asc ''sequence item '' @ str_nat i @ asc '': expected str instance, '' @ type_name v
       @ asc '' found''"

fun join_from :: "nat \<Rightarrow> pystr \<Rightarrow> pyval list \<Rightarrow> pystr + pystr" where
  "join_from i sep [] = Inr []"
| "join_from i sep (PyStr s # vs) =
     (case join_from (Suc i) sep vs of
        Inl m \<Rightarrow> Inl m
      | Inr rest \<Rightarrow> Inr (if vs = [] then s else s @ sep @ rest))"
| "join_from i sep (v # vs) = Inl (join_error i v)"

definition py_join :: "pystr \<Rightarrow> pyval list \<Rightarrow> pystr + pystr" where
  "py_join sep vs = join_from 0 sep vs"

text \<open>\<open>posixpath.basename\<close>: what follows the last slash (code point 47).\<close>

definition basename :: "pystr \<Rightarrow> pystr" where
  "basename p = rev (takeWhile (\<lambda>c. c \<noteq> 47) (rev p))"

text \<open>\<open>posixpath.join\<close> of two components.\<close>

definition path_join :: "pystr \<Rightarrow> pystr \<Rightarrow> pystr" where
  "path_join a b =
     (if b \<noteq> [] \<and> hd b = 47 then b
      else if a = [] \<or> last a = 47 then a @ b
      else a @ [47] @ b)"


section \<open>Conversation and collaborators\<close>

record tool_call =
  tc_id :: pystr
  tc_name :: pystr
  tc_arguments :: pystr

text \<open>
  The assistant message the model client returns: \<open>content\<close> is a string or \<open>None\<close>;
  \<open>tool_calls\<close> is a list, the empty list also standing for \<open>None\<close> (the loop only tests
  its truth value and iterates over it).
\<close>

record response_message =
  content :: "pystr option"
  tool_calls :: "tool_call list"

datatype message =
    System pystr
  | User pystr
  | Assistant response_message
  | Tool pystr pystr pystr

fun tool_call_id :: "message \<Rightarrow> pystr option" where
  "tool_call_id (Tool call_id name text) = Some call_id"
| "tool_call_id other = None"


text \<open>What the preview code reads from the \<open>DataFrame\<close> that \<open>pd.read_excel\<close> returns.\<close>

record dataframe =
  df_len :: nat
  df_shape1 :: nat
  df_head_to_string :: "nat \<Rightarrow> pystr"
  df_columns :: "pyval list"
  df_dtypes_to_string :: pystr

text \<open>
  The collaborators, as the functions the code calls on them. A sandbox session is
  \<open>SandboxSession(lang, keep_template)\<close> used as a context manager: \<open>session_enter\<close> is
  construction and \<open>__enter__\<close>, \<open>session_exit\<close> is \<open>__exit__\<close> (it returns no true
  value, so it never swallows an exception), \<open>session_run\<close> is \<open>session.run(code,
  libraries).text\<close>. \<open>Some e\<close> and \<open>Inl e\<close> mean that the call raised \<open>e\<close>. The model
  client is called with the number of calls made before and the whole conversation. The
  three functions of the module \<open>logger\<close>, which \<open>app.py\<close> imports and which is not among
  the sources, are parameters too.
\<close>

record env =
  session_enter :: "pyval \<Rightarrow> bool \<Rightarrow> exn option"
  session_run :: "pyval \<Rightarrow> bool \<Rightarrow> pyval \<Rightarrow> pyval \<Rightarrow> exn + pystr"
  session_copy_to_runtime :: "pyval \<Rightarrow> pyval \<Rightarrow> exn option"
  session_copy_from_runtime :: "pyval \<Rightarrow> pyval \<Rightarrow> exn option"
  session_exit :: "pyval \<Rightarrow> bool \<Rightarrow> exn option"
  chat_completions_create :: "nat \<Rightarrow> message list \<Rightarrow> exn + response_message"
  json_loads :: "pystr \<Rightarrow> exn + parsed"
  read_excel :: "pystr \<Rightarrow> exn + dataframe"
  path_exists :: "pystr \<Rightarrow> bool"
  getcwd :: pystr
  log_model_request :: "message list \<Rightarrow> exn option"
  log_model_response :: "response_message \<Rightarrow> exn option"
  log_tool_result :: "pystr \<Rightarrow> pystr \<Rightarrow> exn option"

definition raise_if :: "exn option \<Rightarrow> exn + unit" where
  "raise_if r = (case r of Some e \<Rightarrow> Inl e | None \<Rightarrow> Inr ())"

text \<open>\<open>with SandboxSession(...) as session: body\<close>.\<close>

definition with_session :: "env \<Rightarrow> pyval \<Rightarrow> bool \<Rightarrow> exn + 'a \<Rightarrow> exn + 'a" where
  "with_session env lang keep_template body =
     (case session_enter env lang keep_template of
        Some e \<Rightarrow> Inl e
      | None \<Rightarrow>
          (case session_exit env lang keep_template of
             Some e \<Rightarrow> Inl e
           | None \<Rightarrow> body))"

section \<open>The three tools (\<open>excel_process.py\<close> 17-58, \<open>app.py\<close> 34-64)\<close>

text \<open>The literals of the source, as code points.\<close>

definition no_output_advice :: pystr where
  "no_output_advice =
     [25191, 34892, 25104, 21151, 65292, 20294, 27809, 26377, 36755, 20986, 32467, 26524,
      12290, 35831, 23581, 35797, 28155, 21152, 112, 114, 105, 110, 116, 35821, 21477,
      26469, 26174, 31034, 32467, 26524, 12290]"

definition copied_to_sandbox :: pystr where
  "copied_to_sandbox =
     [25991, 20214, 24050, 25104, 21151, 22797, 21046, 21040, 27801, 30418, 58, 32]"

definition copied_from_sandbox :: pystr where
  "copied_from_sandbox =
     [25991, 20214, 24050, 25104, 21151, 20174, 27801, 30418, 22797, 21046, 58, 32]"

definition copy_failed :: pystr where
  "copy_failed = [22797, 21046, 25991, 20214, 22833, 36133, 58, 32]"

text \<open>
  \<open>run_code\<close>. The two files differ in one keyword: \<open>app.py\<close> passes
  \<open>keep_template=True\<close>, \<open>excel_process.py\<close> leaves the default (false).
\<close>

definition run_code :: "env \<Rightarrow> bool \<Rightarrow> pyval \<Rightarrow> pyval \<Rightarrow> pyval \<Rightarrow> exn + pystr" where
  "run_code env keep_template lang code libraries =
     with_session env lang keep_template
       (case session_run env lang keep_template code libraries of
          Inl e \<Rightarrow> Inl e
        | Inr result \<Rightarrow>
            if result = [] \<or> py_strip result = [] then Inr no_output_advice
            else Inr result)"

text \<open>
  The two copy tools, the same text in both files: the whole body is inside
  \<open>try\<close>, and \<open>except Exception as e\<close> turns whatever was raised into a string.
\<close>

definition copy_file_to_sandbox :: "env \<Rightarrow> pyval \<Rightarrow> pyval \<Rightarrow> exn + pystr" where
  "copy_file_to_sandbox env local_path sandbox_path =
     (case with_session env (PyStr (asc ''python'')) True
             (raise_if (session_copy_to_runtime env local_path sandbox_path)) of
        Inr u \<Rightarrow>
          Inr (copied_to_sandbox @ py_str local_path @ asc '' -> '' @ py_str sandbox_path)
      | Inl e \<Rightarrow> Inr (copy_failed @ str_exn e))"

definition copy_file_from_sandbox :: "env \<Rightarrow> pyval \<Rightarrow> pyval \<Rightarrow> exn + pystr" where
  "copy_file_from_sandbox env sandbox_path local_path =
     (case with_session env (PyStr (asc ''python'')) True
             (raise_if (session_copy_from_runtime env sandbox_path local_path)) of
        Inr u \<Rightarrow>
          Inr (copied_from_sandbox @ py_str sandbox_path @ asc '' -> '' @ py_str local_path)
      | Inl e \<Rightarrow> Inr (copy_failed @ str_exn e))"


section \<open>The agent loop of \<open>excel_process.py\<close>\<close>

text \<open>
  The local variables of \<open>run_agent\<close> that the loop reads and writes. \<open>result\<close> is
  \<open>None\<close> while the local variable is unbound. \<open>notices\<close> holds the results of staging
  the input file, which the code shows to the user (\<open>print\<close>, \<open>st.info\<close>, \<open>st.warning\<close>);
  the rest of the console trace is not modelled. \<open>model_calls\<close> and \<open>rounds\<close> are not
  variables of the code: they count the calls of the model client and the completed
  \<open>for\<close> loops over a turn's tool calls.
\<close>

datatype notice = Info pystr | Warning pystr

record loop_state =
  messages :: "message list"
  result :: "pystr option"
  generated_files :: "pyval list"
  notices :: "notice list"
  model_calls :: nat
  rounds :: nat

definition quoted :: "pystr \<Rightarrow> pystr" where
  "quoted s = [39] @ s @ [39]"

definition no_attribute_get :: "pystr \<Rightarrow> exn" where
  "no_attribute_get ty =
     AttributeError (quoted ty @ asc '' object has no attribute '' @ quoted (asc ''get''))"

definition result_unbound :: exn where
  "result_unbound =
     UnboundLocalError (asc ''cannot access local variable '' @ quoted (asc ''result'')
       @ asc '' where it is not associated with a value'')"

definition none_plus_str :: exn where
  "none_plus_str =
     TypeError (asc ''unsupported operand type(s) for +=: '' @ quoted (asc ''NoneType'')
       @ asc '' and '' @ quoted (asc ''str''))"

text \<open>\<open>function_args.get(key)\<close> on what \<open>json.loads\<close> returned.\<close>

definition args_get :: "parsed \<Rightarrow> pystr \<Rightarrow> exn + pyval" where
  "args_get function_args key =
     (case function_args of
        ArgsDict items \<Rightarrow>
          Inr (case map_of items key of None \<Rightarrow> PyNone | Some v \<Rightarrow> v)
      | ArgsOther ty \<Rightarrow> Inl (no_attribute_get ty))"

text \<open>
  The \<open>if\<close>/\<open>elif\<close> chain of lines 199-214 has no \<open>else\<close>: for another function name
  \<open>result\<close> keeps what it was.
\<close>

definition call_tool :: "env \<Rightarrow> bool \<Rightarrow> pystr option \<Rightarrow> pystr \<Rightarrow> parsed \<Rightarrow> exn + pystr option" where
  "call_tool env keep_template result_before function_name function_args =
     (if function_name = asc ''run_code'' then
        bind_exn (args_get function_args (asc ''lang'')) (\<lambda>lang.
        bind_exn (args_get function_args (asc ''code'')) (\<lambda>code.
        bind_exn (args_get function_args (asc ''libraries'')) (\<lambda>libraries.
        bind_exn (run_code env keep_template lang code libraries) (\<lambda>r. Inr (Some r)))))
      else if function_name = asc ''copy_file_to_sandbox'' then
        bind_exn (args_get function_args (asc ''local_path'')) (\<lambda>local_path.
        bind_exn (args_get function_args (asc ''sandbox_path'')) (\<lambda>sandbox_path.
        bind_exn (copy_file_to_sandbox env local_path sandbox_path) (\<lambda>r. Inr (Some r))))
      else if function_name = asc ''copy_file_from_sandbox'' then
        bind_exn (args_get function_args (asc ''sandbox_path'')) (\<lambda>sandbox_path.
        bind_exn (args_get function_args (asc ''local_path'')) (\<lambda>local_path.
        bind_exn (copy_file_from_sandbox env sandbox_path local_path) (\<lambda>r. Inr (Some r))))
      else Inr result_before)"

text \<open>One pass of the body of \<open>for tool_call in response_message.tool_calls\<close> (lines 195-229).\<close>

definition dispatch_tool_call :: "env \<Rightarrow> loop_state \<Rightarrow> tool_call \<Rightarrow> exn + loop_state" where
  "dispatch_tool_call env st tool_call =
     bind_exn (json_loads env (tc_arguments tool_call)) (\<lambda>function_args.
     bind_exn (call_tool env False (result st) (tc_name tool_call) function_args) (\<lambda>bound.
       case bound of
         None \<Rightarrow> Inl result_unbound
       | Some r \<Rightarrow>
           Inr (st\<lparr>messages := messages st @ [Tool (tc_id tool_call) (tc_name tool_call) r],
                   result := Some r\<rparr>)))"

fun process_tool_calls :: "env \<Rightarrow> loop_state \<Rightarrow> tool_call list \<Rightarrow> exn + loop_state" where
  "process_tool_calls env st [] = Inr st"
| "process_tool_calls env st (tool_call # rest) =
     (case dispatch_tool_call env st tool_call of
        Inl e \<Rightarrow> Inl e
      | Inr st' \<Rightarrow> process_tool_calls env st' rest)"

definition copied_locally :: pystr where
  "copied_locally =
     [10, 10, 29983, 25104, 30340, 25991, 20214, 24050, 22797, 21046, 21040, 26412, 22320,
      58, 10]"

text \<open>
  The \<open>else\<close> branch, lines 235-263: the final result. \<open>generated_files\<close> holds sandbox
  paths here; each is copied to \<open>output_\<close> plus its base name in the working directory
  (the copy tool never raises, so every local path is kept).
\<close>

definition local_file :: "env \<Rightarrow> pyval \<Rightarrow> pyval" where
  "local_file env sandbox_file =
     PyStr (path_join (getcwd env) (asc ''output_'' @ basename (py_str sandbox_file)))"

definition final_result :: "env \<Rightarrow> loop_state \<Rightarrow> pystr option \<Rightarrow> exn + pystr option" where
  "final_result env st text =
     (if generated_files st \<noteq> [] then
        (case py_join [10] (map (local_file env) (generated_files st)) of
           Inl m \<Rightarrow> Inl (TypeError m)
         | Inr joined \<Rightarrow>
             (case text of
                None \<Rightarrow> Inl none_plus_str
              | Some t \<Rightarrow> Inr (Some (t @ copied_locally @ joined))))
      else Inr text)"

text \<open>
  \<open>while True\<close>, lines 168-263, with fuel: one unit per call of the model client, and
  \<open>None\<close> when the fuel runs out before the loop returns. The outcome is the exception
  that left the loop, or the returned value with the state at the \<open>return\<close>.
\<close>

fun agent_loop :: "nat \<Rightarrow> env \<Rightarrow> loop_state \<Rightarrow> (exn + pystr option \<times> loop_state) option" where
  "agent_loop 0 env st = None"
| "agent_loop (Suc fuel) env st =
     (case chat_completions_create env (model_calls st) (messages st) of
        Inl e \<Rightarrow> Some (Inl e)
      | Inr response_message \<Rightarrow>
          (let st1 = st\<lparr>messages := messages st @ [Assistant response_message],
                         model_calls := Suc (model_calls st)\<rparr>
           in if tool_calls response_message \<noteq> [] then
                (case process_tool_calls env st1 (tool_calls response_message) of
                   Inl e \<Rightarrow> Some (Inl e)
                 | Inr st2 \<Rightarrow> agent_loop fuel env (st2\<lparr>rounds := Suc (rounds st2)\<rparr>))
              else
                (case final_result env st1 (content response_message) of
                   Inl e \<Rightarrow> Some (Inl e)
                 | Inr text \<Rightarrow> Some (Inr (text, st1)))))"

definition uploaded_to :: pystr where
  "uploaded_to =
     [10, 10, 69, 120, 99, 101, 108, 25991, 20214, 24050, 19978, 20256, 21040, 27801, 30418,
      29615, 22659, 65292, 36335, 24452, 20026, 58, 32]"

text \<open>
  Lines 142-166: the conversation before the first call of the model. \<open>excel_file_path\<close>
  is \<open>None\<close> or a string, and an empty string counts as no file.
\<close>

definition initial_state :: "env \<Rightarrow> pystr \<Rightarrow> pystr option \<Rightarrow> loop_state" where
  "initial_state env user_input excel_file_path =
     (case excel_file_path of
        Some path \<Rightarrow>
          if path \<noteq> [] then
            (let sandbox_dir = asc ''/sandbox'';
                 sandbox_excel_path = path_join sandbox_dir (basename path);
                 copy_result = copy_file_to_sandbox env (PyStr path) (PyStr sandbox_dir)
             in \<lparr>messages = [User (user_input @ uploaded_to @ sandbox_excel_path)],
                  result = None, generated_files = [],
                  notices = (case copy_result of Inr r \<Rightarrow> [Info r] | Inl e \<Rightarrow> []),
                  model_calls = 0, rounds = 0\<rparr>)
          else
            \<lparr>messages = [User user_input], result = None, generated_files = [],
              notices = [], model_calls = 0, rounds = 0\<rparr>
      | None \<Rightarrow>
          \<lparr>messages = [User user_input], result = None, generated_files = [],
            notices = [], model_calls = 0, rounds = 0\<rparr>)"

definition run_agent :: "nat \<Rightarrow> env \<Rightarrow> pystr \<Rightarrow> pystr option \<Rightarrow> (exn + pystr option \<times> loop_state) option" where
  "run_agent fuel env user_input excel_file_path =
     agent_loop fuel env (initial_state env user_input excel_file_path)"

text \<open>
  The script, lines 265-284, given the two lines read from standard input. The value is
  the exit status of the process: \<open>exit(1)\<close> for a missing file, 1 when an exception
  leaves \<open>run_agent\<close> (nothing catches it, and the interpreter ends with status 1 after
  the traceback), 0 at the end of the script; \<open>None\<close> while the loop has not returned.
\<close>

definition main :: "nat \<Rightarrow> env \<Rightarrow> pystr \<Rightarrow> pystr \<Rightarrow> nat option" where
  "main fuel env excel_path user_request =
     (if excel_path \<noteq> [] \<and> \<not> path_exists env excel_path then Some 1
      else
        (case run_agent fuel env user_request
                (if excel_path \<noteq> [] then Some excel_path else None) of
           None \<Rightarrow> None
         | Some (Inl e) \<Rightarrow> Some 1
         | Some (Inr r) \<Rightarrow> Some 0))"


section \<open>The agent loop of \<open>app.py\<close>\<close>

text \<open>
  The entries of \<open>all_outputs\<close>, by their \<open>type\<close>. The calls that draw them
  (\<open>update_results\<close>, \<open>st.status\<close> and the other widgets) change none of the variables
  of the loop and are taken to return.
\<close>

datatype output_event =
    Out_ai pystr
  | Out_code pyval pyval
  | Out_result pystr
  | Out_info pystr
  | Out_files "pyval list"

record app_state = loop_state +
  all_outputs :: "output_event list"
  step_counter :: nat

definition system_prompt :: pystr where
  "system_prompt =
     [20320, 26159, 19968, 20301, 69, 120, 99, 101, 108, 25968, 25454, 20998, 26512, 19987,
      23478, 65292, 25797, 38271, 20351, 29992, 80, 121, 116, 104, 111, 110, 36827, 34892,
      25968, 25454, 22788, 29702, 21644, 21487, 35270, 21270, 12290, 35831, 26681, 25454,
      29992, 25143, 30340, 38656, 27714, 65292, 29983, 25104, 24182, 25191, 34892, 30456,
      24212, 30340, 20195, 30721, 26469, 20998, 26512, 69, 120, 99, 101, 108, 25968, 25454,
      12290, 10, 32, 32, 32, 32, 32, 32, 32, 32, 32, 32, 32, 32, 25152, 26377, 30340,
      25968, 25454, 20998, 26512, 37117, 24212, 24403, 22312, 27801, 30418, 20013, 36827,
      34892, 65292, 20026, 20102, 25429, 33719, 31243, 24207, 36816, 34892, 30340, 29366,
      24577, 21644, 32467, 26524, 65292, 22312, 20195, 30721, 20013, 29992, 112, 114, 105,
      110, 116, 40, 41, 35821, 21477, 25226, 20320, 24819, 20102, 35299, 30340, 20449,
      24687, 36755, 20986, 12290, 10, 32, 32, 32, 32, 32, 32, 32, 32, 32, 32, 32, 32,
      22914, 26524, 28041, 21450, 21040, 29983, 25104, 22270, 29255, 25110, 20135, 29983,
      20854, 20182, 25991, 20214, 65292, 38500, 20102, 22312, 30028, 38754, 19978, 28210,
      26579, 26174, 31034, 22806, 65292, 36824, 24212, 23558, 20854, 20174, 27801, 30418,
      29615, 22659, 22797, 21046, 21040, 22806, 37096, 23384, 20648, 12290, 10, 32, 32, 32,
      32, 32, 32, 32, 32, 32, 32, 32, 32, 22914, 26524, 35201, 20316, 22270, 65292, 30001,
      20110, 20013, 25991, 23383, 20307, 21487, 33021, 20986, 29616, 26174, 31034, 38382,
      39064, 65292, 25152, 20197, 22270, 29255, 20013, 25991, 23383, 19968, 24459, 20351,
      29992, 33521, 25991, 12290]"

definition please_wait :: pystr where
  "please_wait =
     [22909, 30340, 65292, 35831, 31245, 31561, 65292, 25105, 27491, 22312, 20998, 26512,
      24744, 30340, 38656, 27714, 24182, 29983, 25104, 20195, 30721, 12290]"

definition no_preview :: pystr where
  "no_preview = [26080, 27861, 25552, 21462, 69, 120, 99, 101, 108, 39044, 35272, 58, 32]"

definition column_names :: pystr where
  "column_names = [21015, 21517, 58, 32]"

definition data_types :: pystr where
  "data_types = [25968, 25454, 31867, 22411, 58, 10]"

definition preview_header :: pystr where
  "preview_header =
     [10, 10, 69, 120, 99, 101, 108, 25991, 20214, 39044, 35272, 20449, 24687, 58, 10, 25991,
      20214, 21517, 58, 32]"

definition total_rows :: pystr where
  "total_rows = [10, 24635, 34892, 25968, 58, 32]"

definition total_columns :: pystr where
  "total_columns = [10, 24635, 21015, 25968, 58, 32]"

definition first_rows :: pystr where
  "first_rows = [10, 10, 21069]"

definition rows_preview :: pystr where
  "rows_preview = [34892, 25968, 25454, 39044, 35272, 58, 10]"

definition generated_label :: pystr where
  "generated_label = [10, 10, 29983, 25104, 30340, 25991, 20214, 58, 10]"

text \<open>
  The body of the \<open>try\<close> of lines 171-185: what is appended to the first message after
  the sandbox path. It raises what \<open>pd.read_excel\<close> raises, and TypeError when a column
  label is not a string.
\<close>

definition excel_info :: "pystr \<Rightarrow> dataframe \<Rightarrow> exn + pystr" where
  "excel_info excel_filename df =
     (let preview_rows = min 5 (df_len df);
          excel_preview = df_head_to_string df preview_rows
      in case py_join (asc '', '') (df_columns df) of
           Inl m \<Rightarrow> Inl (TypeError m)
         | Inr joined \<Rightarrow>
             (let columns_info = column_names @ joined;
                  dtypes_info = data_types @ df_dtypes_to_string df
              in Inr (preview_header @ excel_filename @ total_rows @ str_nat (df_len df)
                      @ total_columns @ str_nat (df_shape1 df) @ [10] @ columns_info
                      @ first_rows @ str_nat preview_rows @ rows_preview @ excel_preview
                      @ [10, 10] @ dtypes_info)))"

definition extract_preview :: "env \<Rightarrow> pystr \<Rightarrow> pystr \<Rightarrow> exn + pystr" where
  "extract_preview env excel_file_path excel_filename =
     bind_exn (read_excel env excel_file_path) (excel_info excel_filename)"

text \<open>
  Lines 145-189. \<open>messages[0]\<close> is the system message here, so that is where the path
  and the preview go.
\<close>

definition app_initial_state :: "env \<Rightarrow> pystr \<Rightarrow> pystr option \<Rightarrow> app_state" where
  "app_initial_state env user_input excel_file_path =
     (let assistant = Assistant \<lparr>content = Some please_wait, tool_calls = []\<rparr>;
          no_file =
            \<lparr>messages = [System system_prompt, User user_input, assistant],
              result = None, generated_files = [], notices = [], model_calls = 0, rounds = 0,
              all_outputs = [], step_counter = 1\<rparr>
      in case excel_file_path of
           None \<Rightarrow> no_file
         | Some path \<Rightarrow>
             if path = [] then no_file
             else
               (let sandbox_dir = asc ''/sandbox/'';
                    excel_filename = basename path;
                    sandbox_excel_path = path_join sandbox_dir excel_filename;
                    copy_result = copy_file_to_sandbox env (PyStr path) (PyStr sandbox_dir);
                    shown = (case copy_result of Inr r \<Rightarrow> [Info r] | Inl e \<Rightarrow> [])
                in case extract_preview env path excel_filename of
                     Inr info \<Rightarrow>
                       no_file\<lparr>messages :=
                           [System (system_prompt @ uploaded_to @ sandbox_excel_path @ info),
                            User user_input, assistant],
                         notices := shown\<rparr>
                   | Inl e \<Rightarrow>
                       no_file\<lparr>messages :=
                           [System (system_prompt @ uploaded_to @ sandbox_excel_path),
                            User user_input, assistant],
                         notices := shown @ [Warning (no_preview @ str_exn e)]\<rparr>))"

text \<open>Lines 290-320: the branch taken for the function name, with what it records.\<close>

definition app_call_tool :: "env \<Rightarrow> app_state \<Rightarrow> pystr \<Rightarrow> parsed \<Rightarrow> exn + app_state" where
  "app_call_tool env st function_name function_args =
     (if function_name = asc ''run_code'' then
        bind_exn (args_get function_args (asc ''lang'')) (\<lambda>lang.
        bind_exn (args_get function_args (asc ''code'')) (\<lambda>code.
        bind_exn (args_get function_args (asc ''libraries'')) (\<lambda>libraries.
        bind_exn (run_code env True lang code libraries) (\<lambda>r.
          Inr (st\<lparr>result := Some r,
                  all_outputs := all_outputs st @ [Out_code lang code, Out_result r]\<rparr>)))))
      else if function_name = asc ''copy_file_to_sandbox'' then
        bind_exn (args_get function_args (asc ''local_path'')) (\<lambda>local_path.
        bind_exn (args_get function_args (asc ''sandbox_path'')) (\<lambda>sandbox_path.
        bind_exn (copy_file_to_sandbox env local_path sandbox_path) (\<lambda>r.
          Inr (st\<lparr>result := Some r, all_outputs := all_outputs st @ [Out_info r]\<rparr>))))
      else if function_name = asc ''copy_file_from_sandbox'' then
        bind_exn (args_get function_args (asc ''sandbox_path'')) (\<lambda>sandbox_path.
        bind_exn (args_get function_args (asc ''local_path'')) (\<lambda>local_path.
        bind_exn (copy_file_from_sandbox env sandbox_path local_path) (\<lambda>r.
          Inr (st\<lparr>result := Some r, generated_files := generated_files st @ [local_path],
                  all_outputs := all_outputs st @ [Out_info r]\<rparr>))))
      else Inr st)"

text \<open>One pass of the body of the \<open>for\<close> loop, lines 282-332.\<close>

definition app_dispatch_tool_call :: "env \<Rightarrow> app_state \<Rightarrow> tool_call \<Rightarrow> exn + app_state" where
  "app_dispatch_tool_call env st tool_call =
     bind_exn (json_loads env (tc_arguments tool_call)) (\<lambda>function_args.
     bind_exn (app_call_tool env (st\<lparr>step_counter := step_counter st + 1\<rparr>)
                 (tc_name tool_call) function_args) (\<lambda>st'.
       case result st' of
         None \<Rightarrow> Inl result_unbound
       | Some r \<Rightarrow>
           bind_exn (raise_if (log_tool_result env (tc_name tool_call) r)) (\<lambda>u.
             Inr (st'\<lparr>messages :=
                     messages st' @ [Tool (tc_id tool_call) (tc_name tool_call) r]\<rparr>))))"

fun app_process_tool_calls :: "env \<Rightarrow> app_state \<Rightarrow> tool_call list \<Rightarrow> exn + app_state" where
  "app_process_tool_calls env st [] = Inr st"
| "app_process_tool_calls env st (tool_call # rest) =
     (case app_dispatch_tool_call env st tool_call of
        Inl e \<Rightarrow> Inl e
      | Inr st' \<Rightarrow> app_process_tool_calls env st' rest)"

text \<open>
  Lines 338-345: the local \<open>final_result\<close> and the state at the \<open>break\<close>. Here
  \<open>generated_files\<close> holds the \<open>local_path\<close> arguments of the copy-out calls.
\<close>

definition app_final_result :: "app_state \<Rightarrow> pystr option \<Rightarrow> exn + pystr option \<times> app_state" where
  "app_final_result st text =
     (if generated_files st \<noteq> [] then
        (case py_join [10] (generated_files st) of
           Inl m \<Rightarrow> Inl (TypeError m)
         | Inr joined \<Rightarrow>
             (case text of
                None \<Rightarrow> Inl none_plus_str
              | Some t \<Rightarrow>
                  Inr (Some (t @ generated_label @ joined),
                       st\<lparr>all_outputs := all_outputs st @ [Out_files (generated_files st)]\<rparr>)))
      else Inr (text, st))"

definition narrate :: "pystr option \<Rightarrow> output_event list" where
  "narrate text = (case text of None \<Rightarrow> [] | Some t \<Rightarrow> if t = [] then [] else [Out_ai t])"

text \<open>
  \<open>while True\<close>, lines 254-350, with fuel as above. \<open>run_agent\<close> of \<open>app.py\<close> returns
  nothing; the outcome is the exception that left the loop, or the value of the local
  \<open>final_result\<close> with the state at the \<open>break\<close>.
\<close>

fun app_agent_loop :: "nat \<Rightarrow> env \<Rightarrow> app_state \<Rightarrow> (exn + pystr option \<times> app_state) option" where
  "app_agent_loop 0 env st = None"
| "app_agent_loop (Suc fuel) env st =
     (case log_model_request env (messages st) of
        Some e \<Rightarrow> Some (Inl e)
      | None \<Rightarrow>
     (case chat_completions_create env (model_calls st) (messages st) of
        Inl e \<Rightarrow> Some (Inl e)
      | Inr response_message \<Rightarrow>
     (case log_model_response env response_message of
        Some e \<Rightarrow> Some (Inl e)
      | None \<Rightarrow>
          (let st1 = st\<lparr>messages := messages st @ [Assistant response_message],
                         model_calls := Suc (model_calls st),
                         all_outputs := all_outputs st @ narrate (content response_message)\<rparr>
           in if tool_calls response_message \<noteq> [] then
                (case app_process_tool_calls env st1 (tool_calls response_message) of
                   Inl e \<Rightarrow> Some (Inl e)
                 | Inr st2 \<Rightarrow> app_agent_loop fuel env (st2\<lparr>rounds := Suc (rounds st2)\<rparr>))
              else Some (app_final_result st1 (content response_message))))))"

definition app_run_agent :: "nat \<Rightarrow> env \<Rightarrow> pystr \<Rightarrow> pystr option \<Rightarrow> (exn + pystr option \<times> app_state) option" where
  "app_run_agent fuel env user_input excel_file_path =
     app_agent_loop fuel env (app_initial_state env user_input excel_file_path)"






section \<open>Stand-ins for the collaborators\<close>

text \<open>
  A sandbox, a JSON parser, a spreadsheet reader and a scripted model that are defined
  outright, so that the loop can be run on concrete conversations. The parser knows a
  handful of argument strings; the scripted model answers its \<open>n\<close>-th call with the
  \<open>n\<close>-th message of the script and every later call with the final message.
\<close>

definition json2 :: "string \<Rightarrow> string \<Rightarrow> string \<Rightarrow> string \<Rightarrow> pystr" where
  "json2 k1 v1 k2 v2 =
     asc ''{'' @ [34] @ asc k1 @ [34] @ asc '': '' @ [34] @ asc v1 @ [34] @ asc '', ''
       @ [34] @ asc k2 @ [34] @ asc '': '' @ [34] @ asc v2 @ [34] @ asc ''}''"

definition known_arguments :: "(string \<times> string \<times> string \<times> string) list" where
  "known_arguments =
     [(''lang'', ''python'', ''code'', ''print(6 * 7)''),
      (''lang'', ''python'', ''code'', ''print()''),
      (''lang'', ''python'', ''code'', ''import nothing''),
      (''sandbox_path'', ''/sandbox/chart.png'', ''local_path'', ''chart.png''),
      (''sandbox_path'', ''/sandbox/lost.png'', ''local_path'', ''lost.png''),
      (''local_path'', ''/data/sales.xlsx'', ''sandbox_path'', ''/sandbox'')]"

definition stub_json_loads :: "pystr \<Rightarrow> exn + parsed" where
  "stub_json_loads s =
     (case find (\<lambda>(k1, v1, k2, v2). json2 k1 v1 k2 v2 = s) known_arguments of
        Some (k1, v1, k2, v2) \<Rightarrow>
          Inr (ArgsDict [(asc k1, PyStr (asc v1)), (asc k2, PyStr (asc v2))])
      | None \<Rightarrow>
          if s = asc ''{}'' then Inr (ArgsDict [])
          else Inl (JSONDecodeError (asc ''Expecting value: line 1 column 1 (char 0)'')))"

definition stub_run :: "pyval \<Rightarrow> bool \<Rightarrow> pyval \<Rightarrow> pyval \<Rightarrow> exn + pystr" where
  "stub_run lang keep_template code libraries =
     (if code = PyStr (asc ''print(6 * 7)'') then Inr (asc ''42'' @ [10])
      else if code = PyStr (asc ''print()'') then Inr [10]
      else Inl (Exception (asc ''container exited with status 1'')))"

definition sales :: dataframe where
  "sales =
     \<lparr>df_len = 12, df_shape1 = 2,
       df_head_to_string = (\<lambda>n. asc ''   month  amount''),
       df_columns = [PyStr (asc ''month''), PyStr (asc ''amount'')],
       df_dtypes_to_string = asc ''month object''\<rparr>"

definition scripted :: "response_message list \<Rightarrow> response_message \<Rightarrow> nat \<Rightarrow> message list \<Rightarrow> exn + response_message" where
  "scripted script final n conversation =
     Inr (if n < length script then script ! n else final)"

definition final_answer :: response_message where
  "final_answer = \<lparr>content = Some (asc ''The answer is 42.''), tool_calls = []\<rparr>"

definition stub_env :: env where
  "stub_env =
     \<lparr>session_enter = (\<lambda>lang keep_template. None),
       session_run = stub_run,
       session_copy_to_runtime = (\<lambda>local_path sandbox_path.
         if local_path = PyStr (asc ''/data/sales.xlsx'') then None
         else Some (Exception (asc ''no such file''))),
       session_copy_from_runtime = (\<lambda>sandbox_path local_path.
         if sandbox_path = PyStr (asc ''/sandbox/chart.png'') then None
         else Some (Exception (asc ''no such file in the container''))),
       session_exit = (\<lambda>lang keep_template. None),
       chat_completions_create = scripted [] final_answer,
       json_loads = stub_json_loads,
       read_excel = (\<lambda>path.
         if path = asc ''/data/sales.xlsx'' then Inr sales
         else Inl (Exception (asc ''File is not a zip file''))),
       path_exists = (\<lambda>path. path = asc ''/data/sales.xlsx'' \<or> path = asc ''/data/notes.xlsx''),
       getcwd = asc ''/work'',
       log_model_request = (\<lambda>conversation. None),
       log_model_response = (\<lambda>response. None),
       log_tool_result = (\<lambda>name text. None)\<rparr>"


definition scripted_env :: "response_message list \<Rightarrow> response_message \<Rightarrow> env" where
  "scripted_env script final = stub_env\<lparr>chat_completions_create := scripted script final\<rparr>"

definition offline_env :: env where
  "offline_env =
     stub_env\<lparr>chat_completions_create :=
       (\<lambda>n conversation. Inl (Exception (asc ''Connection error.'')))\<rparr>"

text \<open>Tool calls a model may emit; the last one names a function that is not a tool.\<close>

definition call_print :: tool_call where
  "call_print =
     \<lparr>tc_id = asc ''call_1'', tc_name = asc ''run_code'',
       tc_arguments = json2 ''lang'' ''python'' ''code'' ''print(6 * 7)''\<rparr>"

definition call_broken :: tool_call where
  "call_broken =
     \<lparr>tc_id = asc ''call_2'', tc_name = asc ''run_code'',
       tc_arguments = json2 ''lang'' ''python'' ''code'' ''import nothing''\<rparr>"

definition call_lost :: tool_call where
  "call_lost =
     \<lparr>tc_id = asc ''call_3'', tc_name = asc ''copy_file_from_sandbox'',
       tc_arguments = json2 ''sandbox_path'' ''/sandbox/lost.png'' ''local_path'' ''lost.png''\<rparr>"


definition call_plot :: tool_call where
  "call_plot =
     \<lparr>tc_id = asc ''call_4'', tc_name = asc ''plot_chart'', tc_arguments = asc ''{}''\<rparr>"

definition turn :: "tool_call list \<Rightarrow> response_message" where
  "turn calls = \<lparr>content = None, tool_calls = calls\<rparr>"

definition question :: pystr where
  "question = asc ''What is 6 times 7?''"


section \<open>Properties\<close>

subsection \<open>Running the stand-ins\<close>

lemma scripted_env_simps:
  "session_enter (scripted_env s f) l k = None"
  "session_exit (scripted_env s f) l k = None"
  "session_run (scripted_env s f) = stub_run"
  "json_loads (scripted_env s f) = stub_json_loads"
  "chat_completions_create (scripted_env s f) n ms = Inr (if n < length s then s ! n else f)"
  "log_model_request (scripted_env s f) ms = None"
  "log_model_response (scripted_env s f) r = None"
  "log_tool_result (scripted_env s f) name t = None"
  "session_copy_from_runtime (scripted_env s f) a b =
     (if a = PyStr (asc ''/sandbox/chart.png'') then None
      else Some (Exception (asc ''no such file in the container'')))"
  by (simp_all add: scripted_env_def stub_env_def scripted_def)

lemma loads_print:
  "stub_json_loads (tc_arguments call_print)
     = Inr (ArgsDict [(asc ''lang'', PyStr (asc ''python'')),
                      (asc ''code'', PyStr (asc ''print(6 * 7)''))])"
  by (simp add: call_print_def stub_json_loads_def known_arguments_def json2_def asc_def)

lemma loads_broken:
  "stub_json_loads (tc_arguments call_broken)
     = Inr (ArgsDict [(asc ''lang'', PyStr (asc ''python'')),
                      (asc ''code'', PyStr (asc ''import nothing''))])"
  by (simp add: call_broken_def stub_json_loads_def known_arguments_def json2_def asc_def)


lemma loads_plot: "stub_json_loads (tc_arguments call_plot) = Inr (ArgsDict [])"
  by (simp add: call_plot_def stub_json_loads_def known_arguments_def json2_def asc_def)

lemma get_code_args:
  "args_get (ArgsDict [(asc ''lang'', l), (asc ''code'', c)]) (asc ''lang'') = Inr l"
  "args_get (ArgsDict [(asc ''lang'', l), (asc ''code'', c)]) (asc ''code'') = Inr c"
  "args_get (ArgsDict [(asc ''lang'', l), (asc ''code'', c)]) (asc ''libraries'') = Inr PyNone"
  by (simp_all add: args_get_def asc_def)


lemma run_print:
  "run_code (scripted_env s f) k (PyStr (asc ''python'')) (PyStr (asc ''print(6 * 7)'')) PyNone
     = Inr [52, 50, 10]"
  by (simp add: run_code_def with_session_def scripted_env_simps stub_run_def asc_def
      py_strip_def py_isspace_def)

lemma run_broken:
  "run_code (scripted_env s f) k (PyStr (asc ''python'')) (PyStr (asc ''import nothing'')) PyNone
     = Inl (Exception (asc ''container exited with status 1''))"
  by (simp add: run_code_def with_session_def scripted_env_simps stub_run_def asc_def)


lemma call_names:
  "tc_name call_print = asc ''run_code''"
  "tc_name call_broken = asc ''run_code''"
  "tc_name call_lost = asc ''copy_file_from_sandbox''"
  "tc_name call_plot = asc ''plot_chart''"
  "tc_id call_print = asc ''call_1''"
  "tc_id call_broken = asc ''call_2''"
  "tc_id call_lost = asc ''call_3''"
  "tc_id call_plot = asc ''call_4''"
  by (simp_all add: call_print_def call_broken_def call_lost_def call_plot_def)

lemma tool_names_differ:
  "asc ''copy_file_from_sandbox'' \<noteq> asc ''run_code''"
  "asc ''copy_file_from_sandbox'' \<noteq> asc ''copy_file_to_sandbox''"
  "asc ''copy_file_to_sandbox'' \<noteq> asc ''run_code''"
  "asc ''plot_chart'' \<noteq> asc ''run_code''"
  "asc ''plot_chart'' \<noteq> asc ''copy_file_to_sandbox''"
  "asc ''plot_chart'' \<noteq> asc ''copy_file_from_sandbox''"
  by (simp_all add: asc_def)

lemma dispatch_print:
  "dispatch_tool_call (scripted_env s f) st call_print
     = Inr (st\<lparr>messages := messages st @ [Tool (asc ''call_1'') (asc ''run_code'') [52, 50, 10]],
              result := Some [52, 50, 10]\<rparr>)"
  by (simp add: dispatch_tool_call_def scripted_env_simps loads_print call_names call_tool_def
      get_code_args bind_exn_def run_print)

lemma dispatch_broken:
  "dispatch_tool_call (scripted_env s f) st call_broken
     = Inl (Exception (asc ''container exited with status 1''))"
  by (simp add: dispatch_tool_call_def scripted_env_simps loads_broken call_names call_tool_def
      get_code_args bind_exn_def run_broken)

lemma dispatch_plot:
  "dispatch_tool_call (scripted_env s f) st call_plot
     = (case result st of
          None \<Rightarrow> Inl result_unbound
        | Some r \<Rightarrow>
            Inr (st\<lparr>messages := messages st @ [Tool (asc ''call_4'') (asc ''plot_chart'') r],
                    result := Some r\<rparr>))"
  by (simp add: dispatch_tool_call_def scripted_env_simps loads_plot call_names
      tool_names_differ call_tool_def bind_exn_def split: option.splits)



lemma app_dispatch_plot:
  "app_dispatch_tool_call (scripted_env s f) st call_plot
     = (case result st of
          None \<Rightarrow> Inl result_unbound
        | Some r \<Rightarrow>
            Inr (st\<lparr>step_counter := step_counter st + 1,
                    messages := messages st @ [Tool (asc ''call_4'') (asc ''plot_chart'') r]\<rparr>))"
  by (simp add: app_dispatch_tool_call_def scripted_env_simps loads_plot call_names
      tool_names_differ app_call_tool_def bind_exn_def raise_if_def split: option.splits)

subsection \<open>The code-execution tool\<close>

lemma strip_empty_iff: "py_strip s = [] \<longleftrightarrow> (\<forall>c\<in>set s. py_isspace c)"
proof -
  have "py_strip s = [] \<longleftrightarrow> (\<forall>c\<in>set (dropWhile py_isspace s). py_isspace c)"
    by (simp add: py_strip_def)
  also have "\<dots> \<longleftrightarrow> (\<forall>c\<in>set s. py_isspace c)"
  proof
    assume all: "\<forall>c\<in>set (dropWhile py_isspace s). py_isspace c"
    have "dropWhile py_isspace s = []"
    proof (rule ccontr)
      assume ne: "dropWhile py_isspace s \<noteq> []"
      then have "\<not> py_isspace (hd (dropWhile py_isspace s))" by (rule hd_dropWhile)
      moreover have "hd (dropWhile py_isspace s) \<in> set (dropWhile py_isspace s)"
        using ne by simp
      ultimately show False using all by blast
    qed
    then show "\<forall>c\<in>set s. py_isspace c" by simp
  next
    assume "\<forall>c\<in>set s. py_isspace c"
    then show "\<forall>c\<in>set (dropWhile py_isspace s). py_isspace c"
      by (auto dest: set_dropWhileD)
  qed
  finally show ?thesis .
qed

text \<open>
  C1. When the sandbox session starts, runs the code and closes without raising,
  \<open>run_code\<close> (in either file) returns the fixed advice if the captured text is empty or
  all whitespace, and the captured text itself otherwise.
\<close>

theorem run_code_result:
  assumes "session_enter env lang keep_template = None"
    and "session_run env lang keep_template code libraries = Inr text"
    and "session_exit env lang keep_template = None"
  shows "run_code env keep_template lang code libraries =
           Inr (if text = [] \<or> list_all py_isspace text then no_output_advice else text)"
  using assms by (auto simp: run_code_def with_session_def strip_empty_iff list_all_iff)

theorem run_code_result_witness:
  "run_code stub_env False (PyStr (asc ''python'')) (PyStr (asc ''print()'')) PyNone
     = Inr no_output_advice
   \<and> run_code stub_env True (PyStr (asc ''python'')) (PyStr (asc ''print(6 * 7)'')) PyNone
     = Inr [52, 50, 10]"
proof -
  have a: "session_enter stub_env l k = None" for l k by (simp add: stub_env_def)
  have b: "session_exit stub_env l k = None" for l k by (simp add: stub_env_def)
  have c: "session_run stub_env (PyStr (asc ''python'')) False (PyStr (asc ''print()'')) PyNone = Inr [10]"
    by (simp add: stub_env_def stub_run_def asc_def)
  have d: "session_run stub_env (PyStr (asc ''python'')) True (PyStr (asc ''print(6 * 7)'')) PyNone = Inr [52, 50, 10]"
    by (simp add: stub_env_def stub_run_def asc_def)
  show ?thesis
    using run_code_result [OF a c b] run_code_result [OF a d b]
    by (simp add: py_isspace_def)
qed

subsection \<open>One tool message per tool call\<close>

lemma dispatch_appends:
  assumes "dispatch_tool_call env st c = Inr st'"
  shows "\<exists>r. st' = st\<lparr>messages := messages st @ [Tool (tc_id c) (tc_name c) r],
                        result := Some r\<rparr>"
  using assms
  by (auto simp: dispatch_tool_call_def bind_exn_def split: sum.splits option.splits)

lemma app_call_tool_keeps:
  assumes "app_call_tool env st name args = Inr st'"
  shows "messages st' = messages st \<and> model_calls st' = model_calls st
           \<and> rounds st' = rounds st"
  using assms
  by (auto simp: app_call_tool_def bind_exn_def split: sum.splits if_splits)

lemma app_dispatch_appends:
  assumes "app_dispatch_tool_call env st c = Inr st'"
  shows "\<exists>r. messages st' = messages st @ [Tool (tc_id c) (tc_name c) r]
           \<and> result st' = Some r \<and> model_calls st' = model_calls st
           \<and> rounds st' = rounds st"
  using assms
  by (auto simp: app_dispatch_tool_call_def bind_exn_def raise_if_def
      split: sum.splits option.splits dest!: app_call_tool_keeps)

lemma process_appends:
  assumes "process_tool_calls env st calls = Inr st'"
  shows "\<exists>answers. messages st' = messages st @ answers
           \<and> map tool_call_id answers = map (\<lambda>c. Some (tc_id c)) calls
           \<and> model_calls st' = model_calls st \<and> rounds st' = rounds st
           \<and> generated_files st' = generated_files st"
  using assms
proof (induction calls arbitrary: st)
  case Nil
  then show ?case by simp
next
  case (Cons c calls)
  from Cons.prems obtain st1 where d: "dispatch_tool_call env st c = Inr st1"
    and p: "process_tool_calls env st1 calls = Inr st'"
    by (auto split: sum.splits)
  from dispatch_appends [OF d] obtain r where
    st1: "st1 = st\<lparr>messages := messages st @ [Tool (tc_id c) (tc_name c) r],
                    result := Some r\<rparr>"
    by blast
  from Cons.IH [OF p] obtain answers where
    a: "messages st' = messages st1 @ answers"
       "map tool_call_id answers = map (\<lambda>c. Some (tc_id c)) calls"
       "model_calls st' = model_calls st1" "rounds st' = rounds st1"
       "generated_files st' = generated_files st1"
    by blast
  show ?case
    by (rule exI [of _ "Tool (tc_id c) (tc_name c) r # answers"]) (simp add: a st1)
qed

lemma app_process_appends:
  assumes "app_process_tool_calls env st calls = Inr st'"
  shows "\<exists>answers. messages st' = messages st @ answers
           \<and> map tool_call_id answers = map (\<lambda>c. Some (tc_id c)) calls
           \<and> model_calls st' = model_calls st \<and> rounds st' = rounds st"
  using assms
proof (induction calls arbitrary: st)
  case Nil
  then show ?case by simp
next
  case (Cons c calls)
  from Cons.prems obtain st1 where d: "app_dispatch_tool_call env st c = Inr st1"
    and p: "app_process_tool_calls env st1 calls = Inr st'"
    by (auto split: sum.splits)
  from app_dispatch_appends [OF d] obtain r where
    st1: "messages st1 = messages st @ [Tool (tc_id c) (tc_name c) r]"
      "model_calls st1 = model_calls st" "rounds st1 = rounds st"
    by blast
  from Cons.IH [OF p] obtain answers where
    a: "messages st' = messages st1 @ answers"
       "map tool_call_id answers = map (\<lambda>c. Some (tc_id c)) calls"
       "model_calls st' = model_calls st1" "rounds st' = rounds st1"
    by blast
  show ?case
    by (rule exI [of _ "Tool (tc_id c) (tc_name c) r # answers"]) (simp add: a st1)
qed



subsection \<open>The copy tools return text\<close>

lemma copy_to_cases:
  "copy_file_to_sandbox env local_path sandbox_path =
     Inr (case session_enter env (PyStr (asc ''python'')) True of
            Some e \<Rightarrow> copy_failed @ str_exn e
          | None \<Rightarrow>
              (case session_exit env (PyStr (asc ''python'')) True of
                 Some e \<Rightarrow> copy_failed @ str_exn e
               | None \<Rightarrow>
                   (case session_copy_to_runtime env local_path sandbox_path of
                      Some e \<Rightarrow> copy_failed @ str_exn e
                    | None \<Rightarrow>
                        copied_to_sandbox @ py_str local_path @ asc '' -> ''
                          @ py_str sandbox_path)))"
  by (simp add: copy_file_to_sandbox_def with_session_def raise_if_def split: option.splits)





subsection \<open>Failures of the sandbox in \<open>run_code\<close> leave the loop\<close>







subsection \<open>A tool call that names no tool\<close>



lemma run_two_turns:
  "run_agent 3 (scripted_env [turn [call_print], turn [call_plot]] final_answer) question None
     = Some (Inr (Some (asc ''The answer is 42.''),
         \<lparr>messages =
            [User question,
             Assistant (turn [call_print]),
             Tool (asc ''call_1'') (asc ''run_code'') [52, 50, 10],
             Assistant (turn [call_plot]),
             Tool (asc ''call_4'') (asc ''plot_chart'') [52, 50, 10],
             Assistant final_answer],
           result = Some [52, 50, 10], generated_files = [], notices = [],
           model_calls = 3, rounds = 2\<rparr>))"
  by (simp add: run_agent_def initial_state_def numeral_3_eq_3 numeral_2_eq_2
      scripted_env_simps dispatch_print dispatch_plot final_result_def turn_def
      final_answer_def)




subsection \<open>A model that stops calling tools after \<open>n\<close> turns\<close>

lemma agent_loop_scripted:
  assumes "\<forall>i<n. \<forall>ms. \<exists>r. chat_completions_create env (model_calls st + i) ms = Inr r
             \<and> tool_calls r \<noteq> []"
    and "\<forall>ms. \<exists>r. chat_completions_create env (model_calls st + n) ms = Inr r
             \<and> tool_calls r = []"
    and "n < fuel" and "generated_files st = []"
  shows "(\<exists>e. agent_loop fuel env st = Some (Inl e))
         \<or> (\<exists>r st'. agent_loop fuel env st = Some (Inr (content r, st'))
               \<and> last (messages st') = Assistant r \<and> tool_calls r = []
               \<and> model_calls st' = model_calls st + n + 1 \<and> rounds st' = rounds st + n)"
  using assms
proof (induction n arbitrary: st fuel)
  case 0
  from \<open>0 < fuel\<close> obtain k where fuel: "fuel = Suc k" by (cases fuel) auto
  from "0.prems"(2) obtain r where
    r: "chat_completions_create env (model_calls st) (messages st) = Inr r" "tool_calls r = []"
    by (metis add.right_neutral)
  have "agent_loop fuel env st
      = Some (Inr (content r, st\<lparr>messages := messages st @ [Assistant r],
                                 model_calls := Suc (model_calls st)\<rparr>))"
    using r "0.prems"(4) by (simp add: fuel final_result_def)
  then show ?case using r(2) by auto
next
  case (Suc n)
  from \<open>Suc n < fuel\<close> obtain k where fuel: "fuel = Suc k" and k: "n < k"
    by (cases fuel) auto
  from Suc.prems(1) obtain r where
    r: "chat_completions_create env (model_calls st) (messages st) = Inr r" "tool_calls r \<noteq> []"
    by (metis add.right_neutral zero_less_Suc)
  define st1 where "st1 = st\<lparr>messages := messages st @ [Assistant r],
                         model_calls := Suc (model_calls st)\<rparr>"
  show ?case
  proof (cases "process_tool_calls env st1 (tool_calls r)")
    case (Inl e)
    then have "agent_loop fuel env st = Some (Inl e)"
      using r by (simp add: fuel st1_def)
    then show ?thesis by blast
  next
    case (Inr st2)
    define st3 where "st3 = st2\<lparr>rounds := Suc (rounds st2)\<rparr>"
    from process_appends [OF Inr] have
      keep: "model_calls st2 = Suc (model_calls st)" "rounds st2 = rounds st"
        "generated_files st2 = []"
      using Suc.prems(4) by (auto simp: st1_def)
    have step: "agent_loop fuel env st = agent_loop k env st3"
      using r Inr by (simp add: fuel st1_def st3_def)
    have a: "\<forall>i<n. \<forall>ms. \<exists>r. chat_completions_create env (model_calls st3 + i) ms = Inr r
             \<and> tool_calls r \<noteq> []"
      using Suc.prems(1) keep(1) by (simp add: st3_def) (metis Suc_less_eq add_Suc_right)
    have b: "\<forall>ms. \<exists>r. chat_completions_create env (model_calls st3 + n) ms = Inr r
             \<and> tool_calls r = []"
      using Suc.prems(2) keep(1) by (simp add: st3_def)
    have c: "generated_files st3 = []"
      using keep(3) by (simp add: st3_def)
    from Suc.IH [OF a b k c] show ?thesis
      using keep by (simp add: step st3_def)
  qed
qed

lemma app_final_result_cases:
  "(\<exists>e. app_final_result st text = Inl e)
   \<or> (\<exists>final st'. app_final_result st text = Inr (final, st')
         \<and> messages st' = messages st \<and> model_calls st' = model_calls st
         \<and> rounds st' = rounds st \<and> generated_files st' = generated_files st
         \<and> all_outputs st' = all_outputs st
              @ (if generated_files st = [] then [] else [Out_files (generated_files st)]))"
  by (auto simp: app_final_result_def split: sum.splits option.splits)

lemma app_agent_loop_scripted:
  assumes "\<forall>i<n. \<forall>ms. \<exists>r. chat_completions_create env (model_calls st + i) ms = Inr r
             \<and> tool_calls r \<noteq> []"
    and "\<forall>ms. \<exists>r. chat_completions_create env (model_calls st + n) ms = Inr r
             \<and> tool_calls r = []"
    and "n < fuel"
  shows "(\<exists>e. app_agent_loop fuel env st = Some (Inl e))
         \<or> (\<exists>r final st' shown. app_agent_loop fuel env st = Some (Inr (final, st'))
               \<and> last (messages st') = Assistant r \<and> tool_calls r = []
               \<and> model_calls st' = model_calls st + n + 1 \<and> rounds st' = rounds st + n
               \<and> all_outputs st' = shown @ narrate (content r)
                    @ (if generated_files st' = [] then []
                       else [Out_files (generated_files st')]))"
  using assms
proof (induction n arbitrary: st fuel)
  case 0
  from \<open>0 < fuel\<close> obtain k where fuel: "fuel = Suc k" by (cases fuel) auto
  from "0.prems"(2) obtain r where
    r: "chat_completions_create env (model_calls st) (messages st) = Inr r" "tool_calls r = []"
    by (metis add.right_neutral)
  define st1 where "st1 = st\<lparr>messages := messages st @ [Assistant r],
                         model_calls := Suc (model_calls st),
                         all_outputs := all_outputs st @ narrate (content r)\<rparr>"
  show ?case
  proof (cases "log_model_request env (messages st)")
    case (Some e)
    then show ?thesis by (simp add: fuel)
  next
    case None
    note request = None
    show ?thesis
    proof (cases "log_model_response env r")
      case (Some e)
      then show ?thesis using request r by (simp add: fuel)
    next
      case None
      have loop: "app_agent_loop fuel env st = Some (app_final_result st1 (content r))"
        using request None r by (simp add: fuel st1_def)
      from app_final_result_cases [of st1 "content r"] show ?thesis
      proof (elim disjE exE conjE)
        fix e assume "app_final_result st1 (content r) = Inl e"
        then show ?thesis by (simp add: loop)
      next
        fix final st'
        assume f: "app_final_result st1 (content r) = Inr (final, st')"
          "messages st' = messages st1" "model_calls st' = model_calls st1"
          "rounds st' = rounds st1" "generated_files st' = generated_files st1"
          "all_outputs st' = all_outputs st1
              @ (if generated_files st1 = [] then [] else [Out_files (generated_files st1)])"
        have "app_agent_loop fuel env st = Some (Inr (final, st'))
               \<and> last (messages st') = Assistant r \<and> tool_calls r = []
               \<and> model_calls st' = model_calls st + 0 + 1 \<and> rounds st' = rounds st + 0
               \<and> all_outputs st' = all_outputs st @ narrate (content r)
                    @ (if generated_files st' = [] then []
                       else [Out_files (generated_files st')])"
          using f r(2) by (simp add: loop st1_def)
        then show ?thesis by blast
      qed
    qed
  qed
next
  case (Suc n)
  from \<open>Suc n < fuel\<close> obtain k where fuel: "fuel = Suc k" and k: "n < k"
    by (cases fuel) auto
  from Suc.prems(1) obtain r where
    r: "chat_completions_create env (model_calls st) (messages st) = Inr r" "tool_calls r \<noteq> []"
    by (metis add.right_neutral zero_less_Suc)
  define st1 where "st1 = st\<lparr>messages := messages st @ [Assistant r],
                         model_calls := Suc (model_calls st),
                         all_outputs := all_outputs st @ narrate (content r)\<rparr>"
  show ?case
  proof (cases "log_model_request env (messages st)")
    case (Some e)
    then show ?thesis by (simp add: fuel)
  next
    case None
    note request = None
    show ?thesis
    proof (cases "log_model_response env r")
      case (Some e)
      then show ?thesis using request r by (simp add: fuel)
    next
      case None
      show ?thesis
      proof (cases "app_process_tool_calls env st1 (tool_calls r)")
        case (Inl e)
        then have "app_agent_loop fuel env st = Some (Inl e)"
          using request None r by (simp add: fuel st1_def)
        then show ?thesis by blast
      next
        case (Inr st2)
        define st3 where "st3 = st2\<lparr>rounds := Suc (rounds st2)\<rparr>"
        from app_process_appends [OF Inr] have
          keep: "model_calls st2 = Suc (model_calls st)" "rounds st2 = rounds st"
          by (auto simp: st1_def)
        have step: "app_agent_loop fuel env st = app_agent_loop k env st3"
          using request None r Inr by (simp add: fuel st1_def st3_def)
        have a: "\<forall>i<n. \<forall>ms. \<exists>r. chat_completions_create env (model_calls st3 + i) ms = Inr r
             \<and> tool_calls r \<noteq> []"
          using Suc.prems(1) keep(1) by (simp add: st3_def) (metis Suc_less_eq add_Suc_right)
        have b: "\<forall>ms. \<exists>r. chat_completions_create env (model_calls st3 + n) ms = Inr r
             \<and> tool_calls r = []"
          using Suc.prems(2) keep(1) by (simp add: st3_def)
        from Suc.IH [OF a b k] show ?thesis
          using keep by (simp add: step st3_def)
      qed
    qed
  qed
qed

lemma initial_counters:
  "model_calls (initial_state env user_input path) = 0"
  "rounds (initial_state env user_input path) = 0"
  "generated_files (initial_state env user_input path) = []"
  "model_calls (app_initial_state env user_input path) = 0"
  "rounds (app_initial_state env user_input path) = 0"
  by (simp_all add: initial_state_def app_initial_state_def Let_def
      split: option.splits sum.splits)

lemma run_broken_turn:
  "run_agent 2 (scripted_env [turn [call_broken]] final_answer) question None
     = Some (Inl (Exception (asc ''container exited with status 1'')))"
  by (simp add: run_agent_def initial_state_def numeral_2_eq_2 scripted_env_simps
      dispatch_broken turn_def)

text \<open>
  C3, as the claim has it, fails: the model below asks for a tool in its first turn and
  for none in its second, but the code it asks to run makes the sandbox fail; the
  exception leaves the loop, which completes no round and returns no text.
\<close>

theorem scripted_model_counterexample:
  "chat_completions_create (scripted_env [turn [call_broken]] final_answer) 0 [User question]
     = Inr (turn [call_broken])
   \<and> tool_calls (turn [call_broken]) = [call_broken]
   \<and> chat_completions_create (scripted_env [turn [call_broken]] final_answer) 1 [] = Inr final_answer
   \<and> tool_calls final_answer = []
   \<and> run_agent 2 (scripted_env [turn [call_broken]] final_answer) question None
     = Some (Inl (Exception (asc ''container exited with status 1'')))"
proof -
  have "tool_calls (turn [call_broken]) = [call_broken]" "tool_calls final_answer = []"
    by (simp_all add: turn_def final_answer_def)
  then show ?thesis
    by (simp add: run_broken_turn scripted_env_simps)
qed

text \<open>
  C3, amended. Let the model answer its first \<open>n\<close> calls with tool calls and call
  \<open>n\<close> without, whatever the conversation, and let the fuel allow \<open>n + 1\<close> calls. Then
  the loop ends: either an exception leaves it, or it has called the model \<open>n + 1\<close>
  times and completed \<open>n\<close> rounds, the last message of the conversation is the final
  assistant message, and \<open>excel_process.py\<close> returns the content of that message;
  \<open>app.py\<close> returns nothing, and the narration of that content is the last event it
  has recorded before the list of files, if there is one.
\<close>

theorem scripted_model_terminates:
  assumes "\<forall>i<n. \<forall>ms. \<exists>r. chat_completions_create env i ms = Inr r \<and> tool_calls r \<noteq> []"
    and "\<forall>ms. \<exists>r. chat_completions_create env n ms = Inr r \<and> tool_calls r = []"
    and "n < fuel"
  shows "((\<exists>e. run_agent fuel env user_input path = Some (Inl e))
          \<or> (\<exists>r st. run_agent fuel env user_input path = Some (Inr (content r, st))
                \<and> last (messages st) = Assistant r \<and> tool_calls r = []
                \<and> model_calls st = n + 1 \<and> rounds st = n))
       \<and> ((\<exists>e. app_run_agent fuel env user_input path = Some (Inl e))
          \<or> (\<exists>r final st shown. app_run_agent fuel env user_input path = Some (Inr (final, st))
                \<and> last (messages st) = Assistant r \<and> tool_calls r = []
                \<and> model_calls st = n + 1 \<and> rounds st = n
                \<and> all_outputs st = shown @ narrate (content r)
                     @ (if generated_files st = [] then []
                        else [Out_files (generated_files st)])))"
proof
  show "(\<exists>e. run_agent fuel env user_input path = Some (Inl e))
          \<or> (\<exists>r st. run_agent fuel env user_input path = Some (Inr (content r, st))
                \<and> last (messages st) = Assistant r \<and> tool_calls r = []
                \<and> model_calls st = n + 1 \<and> rounds st = n)"
    using agent_loop_scripted [of n env "initial_state env user_input path" fuel] assms
    by (simp add: run_agent_def initial_counters)
  show "(\<exists>e. app_run_agent fuel env user_input path = Some (Inl e))
          \<or> (\<exists>r final st shown. app_run_agent fuel env user_input path = Some (Inr (final, st))
                \<and> last (messages st) = Assistant r \<and> tool_calls r = []
                \<and> model_calls st = n + 1 \<and> rounds st = n
                \<and> all_outputs st = shown @ narrate (content r)
                     @ (if generated_files st = [] then []
                        else [Out_files (generated_files st)]))"
    using app_agent_loop_scripted [of n env "app_initial_state env user_input path" fuel] assms
    by (simp add: app_run_agent_def initial_counters)
qed

text \<open>
  On the stand-ins: two turns with one tool call each, then the answer. Nothing raises
  in \<open>excel_process.py\<close>, so it is the second case that holds there.
\<close>

theorem scripted_model_terminates_witness:
  "(\<exists>r st. run_agent 3 (scripted_env [turn [call_print], turn [call_plot]] final_answer)
               question None = Some (Inr (content r, st))
        \<and> last (messages st) = Assistant r \<and> tool_calls r = []
        \<and> model_calls st = 2 + 1 \<and> rounds st = 2)
   \<and> ((\<exists>e. app_run_agent 3 (scripted_env [turn [call_print], turn [call_plot]] final_answer)
               question None = Some (Inl e))
      \<or> (\<exists>r final st shown.
            app_run_agent 3 (scripted_env [turn [call_print], turn [call_plot]] final_answer)
               question None = Some (Inr (final, st))
            \<and> last (messages st) = Assistant r \<and> tool_calls r = []
            \<and> model_calls st = 2 + 1 \<and> rounds st = 2
            \<and> all_outputs st = shown @ narrate (content r)
                 @ (if generated_files st = [] then []
                    else [Out_files (generated_files st)])))"
proof -
  define env where "env = scripted_env [turn [call_print], turn [call_plot]] final_answer"
  have h1: "\<forall>i<2. \<forall>ms. \<exists>r. chat_completions_create env i ms = Inr r \<and> tool_calls r \<noteq> []"
    by (auto simp: env_def scripted_env_simps turn_def less_2_cases_iff)
  have h2: "\<forall>ms. \<exists>r. chat_completions_create env 2 ms = Inr r \<and> tool_calls r = []"
    by (simp add: env_def scripted_env_simps final_answer_def)
  have h3: "(2::nat) < 3" by simp
  note inst = scripted_model_terminates [OF h1 h2 h3, of question None]
  have no_raise: "\<not> (\<exists>e. run_agent 3 env question None = Some (Inl e))"
    by (simp add: env_def run_two_turns)
  from inst no_raise have cli:
    "\<exists>r st. run_agent 3 env question None = Some (Inr (content r, st))
        \<and> last (messages st) = Assistant r \<and> tool_calls r = []
        \<and> model_calls st = 2 + 1 \<and> rounds st = 2"
    by blast
  from inst have app:
    "(\<exists>e. app_run_agent 3 env question None = Some (Inl e))
      \<or> (\<exists>r final st shown. app_run_agent 3 env question None = Some (Inr (final, st))
            \<and> last (messages st) = Assistant r \<and> tool_calls r = []
            \<and> model_calls st = 2 + 1 \<and> rounds st = 2
            \<and> all_outputs st = shown @ narrate (content r)
                 @ (if generated_files st = [] then []
                    else [Out_files (generated_files st)]))"
    by (rule conjunct2)
  show ?thesis
    using cli app unfolding env_def by (rule conjI)
qed

subsection \<open>The conversation before the first call of the model\<close>

lemma basename_no_slash: "47 \<notin> set (basename p)"
  by (auto simp: basename_def dest: set_takeWhileD)

lemma sandbox_join:
  "path_join (asc ''/sandbox'') (basename p) = asc ''/sandbox/'' @ basename p"
  "path_join (asc ''/sandbox/'') (basename p) = asc ''/sandbox/'' @ basename p"
proof -
  have "basename p = [] \<or> hd (basename p) \<noteq> 47"
    using basename_no_slash [of p] by (cases "basename p") auto
  then show "path_join (asc ''/sandbox'') (basename p) = asc ''/sandbox/'' @ basename p"
    and "path_join (asc ''/sandbox/'') (basename p) = asc ''/sandbox/'' @ basename p"
    by (auto simp: path_join_def asc_def)
qed

lemma basename_sales: "basename (asc ''/data/sales.xlsx'') = asc ''sales.xlsx''"
  by (simp add: basename_def asc_def)

lemma basename_notes: "basename (asc ''/data/notes.xlsx'') = asc ''notes.xlsx''"
  by (simp add: basename_def asc_def)

lemma sales_nonempty: "asc ''/data/sales.xlsx'' \<noteq> []" "asc ''/data/notes.xlsx'' \<noteq> []"
  by (simp_all add: asc_def)

text \<open>
  C5, as the claim has it, fails in both files. With a spreadsheet supplied,
  \<open>excel_process.py\<close> starts from the user message alone, with no system message and no
  preview; \<open>app.py\<close> starts from three messages, and its user message is the request
  alone: the path and the preview were added to \<open>messages[0]\<close>, the system message.
\<close>

theorem initial_conversation_counterexample:
  "messages (initial_state stub_env question (Some (asc ''/data/sales.xlsx'')))
     = [User (question @ uploaded_to @ asc ''/sandbox/sales.xlsx'')]
   \<and> length (messages (app_initial_state stub_env question (Some (asc ''/data/sales.xlsx''))))
     = 3
   \<and> messages (app_initial_state stub_env question (Some (asc ''/data/sales.xlsx''))) ! 1
     = User question
   \<and> messages (app_initial_state stub_env question (Some (asc ''/data/sales.xlsx''))) ! 2
     = Assistant \<lparr>content = Some please_wait, tool_calls = []\<rparr>"
proof -
  have "messages (initial_state stub_env question (Some (asc ''/data/sales.xlsx'')))
     = [User (question @ uploaded_to @ asc ''/sandbox/sales.xlsx'')]"
    by (simp add: initial_state_def Let_def sales_nonempty basename_sales)
       (simp add: asc_def path_join_def)
  moreover have "length (messages (app_initial_state stub_env question
      (Some (asc ''/data/sales.xlsx'')))) = 3"
    "messages (app_initial_state stub_env question (Some (asc ''/data/sales.xlsx''))) ! 1
     = User question"
    "messages (app_initial_state stub_env question (Some (asc ''/data/sales.xlsx''))) ! 2
     = Assistant \<lparr>content = Some please_wait, tool_calls = []\<rparr>"
    by (simp_all add: app_initial_state_def Let_def sales_nonempty split: sum.splits)
  ultimately show ?thesis by blast
qed

text \<open>
  C5, amended. \<open>excel_process.py\<close> starts from one message, the user message: the
  request, followed when a file was supplied by the notice of the upload and the path
  \<open>/sandbox/\<close> plus the base name of the file. \<open>app.py\<close> starts from three messages:
  the system prompt, followed when a file was supplied by the same notice and path and,
  if the preview could be extracted, by the preview; the user message with the request
  alone; and a fixed assistant message. The preview, when the spreadsheet is read and
  its column labels are strings, is the text built from the file name, the numbers of
  rows and columns, the column labels, the first rows and the types.
\<close>

theorem initial_conversation:
  "messages (initial_state env user_input excel_file_path) =
     [User (user_input
        @ (case excel_file_path of
             None \<Rightarrow> []
           | Some path \<Rightarrow>
               if path = [] then [] else uploaded_to @ asc ''/sandbox/'' @ basename path))]
   \<and> messages (app_initial_state env user_input excel_file_path) =
     [System (system_prompt
        @ (case excel_file_path of
             None \<Rightarrow> []
           | Some path \<Rightarrow>
               if path = [] then []
               else uploaded_to @ asc ''/sandbox/'' @ basename path
                 @ (case extract_preview env path (basename path) of
                      Inr info \<Rightarrow> info
                    | Inl e \<Rightarrow> []))),
      User user_input,
      Assistant \<lparr>content = Some please_wait, tool_calls = []\<rparr>]
   \<and> (read_excel env path = Inr df \<and> py_join (asc '', '') (df_columns df) = Inr labels \<longrightarrow>
        extract_preview env path name =
          Inr (preview_header @ name @ total_rows @ str_nat (df_len df) @ total_columns
               @ str_nat (df_shape1 df) @ [10] @ column_names @ labels @ first_rows
               @ str_nat (min 5 (df_len df)) @ rows_preview
               @ df_head_to_string df (min 5 (df_len df)) @ [10, 10] @ data_types
               @ df_dtypes_to_string df))"
proof (intro conjI impI)
  show "messages (initial_state env user_input excel_file_path) =
     [User (user_input
        @ (case excel_file_path of
             None \<Rightarrow> []
           | Some path \<Rightarrow>
               if path = [] then [] else uploaded_to @ asc ''/sandbox/'' @ basename path))]"
    by (simp add: initial_state_def Let_def sandbox_join split: option.splits)
  show "messages (app_initial_state env user_input excel_file_path) =
     [System (system_prompt
        @ (case excel_file_path of
             None \<Rightarrow> []
           | Some path \<Rightarrow>
               if path = [] then []
               else uploaded_to @ asc ''/sandbox/'' @ basename path
                 @ (case extract_preview env path (basename path) of
                      Inr info \<Rightarrow> info
                    | Inl e \<Rightarrow> []))),
      User user_input,
      Assistant \<lparr>content = Some please_wait, tool_calls = []\<rparr>]"
    by (simp add: app_initial_state_def Let_def sandbox_join split: option.splits sum.splits)
next
  assume "read_excel env path = Inr df \<and> py_join (asc '', '') (df_columns df) = Inr labels"
  then show "extract_preview env path name =
          Inr (preview_header @ name @ total_rows @ str_nat (df_len df) @ total_columns
               @ str_nat (df_shape1 df) @ [10] @ column_names @ labels @ first_rows
               @ str_nat (min 5 (df_len df)) @ rows_preview
               @ df_head_to_string df (min 5 (df_len df)) @ [10, 10] @ data_types
               @ df_dtypes_to_string df)"
    by (simp add: extract_preview_def excel_info_def bind_exn_def Let_def)
qed

text \<open>On the stand-ins, for a spreadsheet of twelve rows and two columns.\<close>

theorem initial_conversation_witness:
  "messages (initial_state stub_env question (Some (asc ''/data/sales.xlsx'')))
     = [User (question @ uploaded_to @ asc ''/sandbox/'' @ asc ''sales.xlsx'')]
   \<and> messages (app_initial_state stub_env question (Some (asc ''/data/sales.xlsx'')))
     = [System (system_prompt @ uploaded_to @ asc ''/sandbox/'' @ asc ''sales.xlsx''
          @ preview_header @ asc ''sales.xlsx'' @ total_rows @ asc ''12'' @ total_columns
          @ asc ''2'' @ [10] @ column_names @ asc ''month, amount'' @ first_rows @ asc ''5''
          @ rows_preview @ asc ''   month  amount'' @ [10, 10] @ data_types
          @ asc ''month object''),
        User question,
        Assistant \<lparr>content = Some please_wait, tool_calls = []\<rparr>]"
proof -
  have labels: "py_join (asc '', '') (df_columns sales) = Inr (asc ''month, amount'')"
    by (simp add: py_join_def sales_def asc_def)
  have read: "read_excel stub_env (asc ''/data/sales.xlsx'') = Inr sales
      \<and> py_join (asc '', '') (df_columns sales) = Inr (asc ''month, amount'')"
    using labels by (simp add: stub_env_def)
  note inst = initial_conversation [where env = stub_env and user_input = question
      and excel_file_path = "Some (asc ''/data/sales.xlsx'')"
      and path = "asc ''/data/sales.xlsx''" and df = sales
      and labels = "asc ''month, amount''" and name = "asc ''sales.xlsx''"]
  have numbers: "str_nat (df_len sales) = asc ''12''" "str_nat (df_shape1 sales) = asc ''2''"
    "str_nat (min 5 (df_len sales)) = asc ''5''"
    by (simp_all add: sales_def str_nat.simps asc_def)
  have texts: "df_head_to_string sales (min 5 (df_len sales)) = asc ''   month  amount''"
    "df_dtypes_to_string sales = asc ''month object''"
    by (simp_all add: sales_def)
  have preview: "extract_preview stub_env (asc ''/data/sales.xlsx'') (asc ''sales.xlsx'')
      = Inr (preview_header @ asc ''sales.xlsx'' @ total_rows @ asc ''12'' @ total_columns
          @ asc ''2'' @ [10] @ column_names @ asc ''month, amount'' @ first_rows @ asc ''5''
          @ rows_preview @ asc ''   month  amount'' @ [10, 10] @ data_types
          @ asc ''month object'')"
    using inst [THEN conjunct2, THEN conjunct2, THEN mp, OF read]
    by (simp only: numbers texts)
  show ?thesis
    using inst [THEN conjunct1] inst [THEN conjunct2, THEN conjunct1]
    by (simp add: sales_nonempty basename_sales preview)
qed

subsection \<open>The exit status of the script\<close>

lemma run_offline:
  "run_agent (Suc fuel) offline_env user_request None
     = Some (Inl (Exception (asc ''Connection error.'')))"
  by (simp add: run_agent_def initial_state_def offline_env_def)

lemma run_answer:
  "run_agent (Suc fuel) stub_env user_request None
     = Some (Inr (Some (asc ''The answer is 42.''),
         \<lparr>messages = [User user_request, Assistant final_answer], result = None,
           generated_files = [], notices = [], model_calls = 1, rounds = 0\<rparr>))"
  by (simp add: run_agent_def initial_state_def stub_env_def scripted_def final_result_def
      final_answer_def)

text \<open>
  C7, as the claim has it, fails: no file path is entered, the model service cannot be
  reached, the exception leaves \<open>run_agent\<close> and the script, and the status is 1.
\<close>

theorem exit_status_counterexample:
  "main 1 offline_env [] question = Some 1"
  by (simp add: main_def run_offline [of 0, simplified])

text \<open>
  C7, amended. The script ends with status 1 when a path was entered that does not exist,
  without calling the model; otherwise its status is 1 when an exception leaves
  \<open>run_agent\<close>, 0 when \<open>run_agent\<close> returns, and it has not ended while the loop has
  not. So the status is 0 exactly when the file, if one was named, exists and
  \<open>run_agent\<close> returns.
\<close>

theorem exit_status:
  "(excel_path \<noteq> [] \<and> \<not> path_exists env excel_path \<longrightarrow>
      main fuel env excel_path user_request = Some 1)
   \<and> (excel_path = [] \<or> path_exists env excel_path \<longrightarrow>
      main fuel env excel_path user_request =
        (case run_agent fuel env user_request
                (if excel_path \<noteq> [] then Some excel_path else None) of
           None \<Rightarrow> None
         | Some (Inl e) \<Rightarrow> Some 1
         | Some (Inr r) \<Rightarrow> Some 0))
   \<and> (main fuel env excel_path user_request = Some 0 \<longleftrightarrow>
      (excel_path = [] \<or> path_exists env excel_path)
      \<and> (\<exists>r. run_agent fuel env user_request
                 (if excel_path \<noteq> [] then Some excel_path else None) = Some (Inr r)))"
  by (auto simp: main_def split: option.splits sum.splits)

text \<open>
  On the stand-ins: a file that does not exist gives 1, and so does a model service that
  is down although the file exists; an answer from the model gives 0.
\<close>

theorem exit_status_witness:
  "main 1 stub_env (asc ''/data/missing.xlsx'') question = Some 1
   \<and> main 1 stub_env [] question = Some 0
   \<and> main 1 offline_env [] question = Some 1"
proof -
  have missing: "asc ''/data/missing.xlsx'' \<noteq> []
      \<and> \<not> path_exists stub_env (asc ''/data/missing.xlsx'')"
    by (simp add: stub_env_def asc_def)
  have none: "[] = ([]::pystr) \<or> path_exists env []" for env
    by simp
  have a: "main 1 stub_env (asc ''/data/missing.xlsx'') question = Some 1"
    by (rule exit_status [THEN conjunct1, THEN mp, OF missing])
  have b: "main 1 stub_env [] question = Some 0"
    using exit_status [where env = stub_env and excel_path = "[]" and fuel = 1
        and user_request = question, THEN conjunct2, THEN conjunct1, THEN mp, OF none]
    by (simp add: run_answer [of 0, simplified])
  have c: "main 1 offline_env [] question = Some 1"
    using exit_status [where env = offline_env and excel_path = "[]" and fuel = 1
        and user_request = question, THEN conjunct2, THEN conjunct1, THEN mp, OF none]
    by (simp add: run_offline [of 0, simplified])
  show ?thesis using a b c by blast
qed

subsection \<open>A spreadsheet whose preview cannot be extracted\<close>

lemma extract_preview_raises:
  "extract_preview env path name = Inl e \<longleftrightarrow>
     read_excel env path = Inl e
     \<or> (\<exists>df m. read_excel env path = Inr df
           \<and> py_join (asc '', '') (df_columns df) = Inl m \<and> e = TypeError m)"
  by (auto simp: extract_preview_def excel_info_def bind_exn_def Let_def split: sum.splits)

text \<open>
  C9. When the extraction of the preview raises \<open>e\<close> (reading the spreadsheet, or
  joining column labels that are not strings), \<open>app.py\<close> shows the result of the
  upload and then a warning with \<open>str(e)\<close>; the first message of the conversation is the
  system prompt followed by the notice of the upload and the sandbox path, and nothing
  else; and \<open>run_agent\<close> is the loop started from that state. The loop then calls the
  model with that conversation: when the model (and the logger) answer without tool
  calls the request ends normally with that answer appended, and when the model client
  raises it is that exception which ends the request.
\<close>

theorem preview_failure_absorbed:
  assumes "path \<noteq> []"
    and "extract_preview env path (basename path) = Inl e"
  shows "messages (app_initial_state env user_input (Some path)) =
           [System (system_prompt @ uploaded_to @ asc ''/sandbox/'' @ basename path),
            User user_input,
            Assistant \<lparr>content = Some please_wait, tool_calls = []\<rparr>]
       \<and> (\<exists>text. copy_file_to_sandbox env (PyStr path) (PyStr (asc ''/sandbox/'')) = Inr text
            \<and> notices (app_initial_state env user_input (Some path)) =
                [Info text, Warning (no_preview @ str_exn e)])
       \<and> app_run_agent fuel env user_input (Some path) =
           app_agent_loop fuel env (app_initial_state env user_input (Some path))
       \<and> (log_model_request env (messages (app_initial_state env user_input (Some path)))
            = None
          \<and> chat_completions_create env 0
               (messages (app_initial_state env user_input (Some path))) = Inl e' \<longrightarrow>
          app_run_agent (Suc fuel) env user_input (Some path) = Some (Inl e'))
       \<and> (log_model_request env (messages (app_initial_state env user_input (Some path)))
            = None
          \<and> chat_completions_create env 0
               (messages (app_initial_state env user_input (Some path))) = Inr r
          \<and> log_model_response env r = None \<and> tool_calls r = [] \<longrightarrow>
          (\<exists>st. app_run_agent (Suc fuel) env user_input (Some path) = Some (Inr (content r, st))
             \<and> messages st
                = messages (app_initial_state env user_input (Some path)) @ [Assistant r]))"
proof (intro conjI impI)
  show "messages (app_initial_state env user_input (Some path)) =
           [System (system_prompt @ uploaded_to @ asc ''/sandbox/'' @ basename path),
            User user_input,
            Assistant \<lparr>content = Some please_wait, tool_calls = []\<rparr>]"
    using assms by (simp add: app_initial_state_def Let_def sandbox_join)
  show "\<exists>text. copy_file_to_sandbox env (PyStr path) (PyStr (asc ''/sandbox/'')) = Inr text
            \<and> notices (app_initial_state env user_input (Some path)) =
                [Info text, Warning (no_preview @ str_exn e)]"
    using assms copy_to_cases [of env "PyStr path" "PyStr (asc ''/sandbox/'')"]
    by (auto simp: app_initial_state_def Let_def)
  show "app_run_agent fuel env user_input (Some path) =
           app_agent_loop fuel env (app_initial_state env user_input (Some path))"
    by (simp add: app_run_agent_def)
next
  assume "log_model_request env (messages (app_initial_state env user_input (Some path)))
            = None
          \<and> chat_completions_create env 0
               (messages (app_initial_state env user_input (Some path))) = Inl e'"
  then show "app_run_agent (Suc fuel) env user_input (Some path) = Some (Inl e')"
    by (simp add: app_run_agent_def initial_counters)
next
  assume a: "log_model_request env (messages (app_initial_state env user_input (Some path)))
            = None
          \<and> chat_completions_create env 0
               (messages (app_initial_state env user_input (Some path))) = Inr r
          \<and> log_model_response env r = None \<and> tool_calls r = []"
  have files: "generated_files (app_initial_state env user_input (Some path)) = []"
    by (simp add: app_initial_state_def Let_def split: sum.splits)
  show "\<exists>st. app_run_agent (Suc fuel) env user_input (Some path) = Some (Inr (content r, st))
             \<and> messages st
                = messages (app_initial_state env user_input (Some path)) @ [Assistant r]"
    using a files
    by (simp add: app_run_agent_def initial_counters app_final_result_def)
qed

text \<open>On the stand-ins: a file that is not a spreadsheet, and a model that answers at once.\<close>

theorem preview_failure_absorbed_witness:
  "messages (app_initial_state stub_env question (Some (asc ''/data/notes.xlsx''))) =
     [System (system_prompt @ uploaded_to @ asc ''/sandbox/'' @ asc ''notes.xlsx''),
      User question,
      Assistant \<lparr>content = Some please_wait, tool_calls = []\<rparr>]
   \<and> (\<exists>text. notices (app_initial_state stub_env question (Some (asc ''/data/notes.xlsx''))) =
         [Info text, Warning (no_preview @ asc ''File is not a zip file'')])
   \<and> (\<exists>st. app_run_agent (Suc 0) stub_env question (Some (asc ''/data/notes.xlsx''))
              = Some (Inr (Some (asc ''The answer is 42.''), st)))"
proof -
  have raises: "extract_preview stub_env (asc ''/data/notes.xlsx'')
      (basename (asc ''/data/notes.xlsx'')) = Inl (Exception (asc ''File is not a zip file''))"
    by (simp add: extract_preview_def bind_exn_def stub_env_def asc_def)
  note inst = preview_failure_absorbed [OF sales_nonempty(2) raises, of question 0 _ final_answer]
  have model: "log_model_request stub_env ms = None
      \<and> chat_completions_create stub_env 0 ms = Inr final_answer
      \<and> log_model_response stub_env final_answer = None \<and> tool_calls final_answer = []" for ms
    by (simp add: stub_env_def scripted_def final_answer_def)
  have a: "messages (app_initial_state stub_env question (Some (asc ''/data/notes.xlsx''))) =
     [System (system_prompt @ uploaded_to @ asc ''/sandbox/'' @ asc ''notes.xlsx''),
      User question,
      Assistant \<lparr>content = Some please_wait, tool_calls = []\<rparr>]"
    using inst [THEN conjunct1] by (simp add: basename_notes)
  have b: "\<exists>text. notices (app_initial_state stub_env question
      (Some (asc ''/data/notes.xlsx''))) =
         [Info text, Warning (no_preview @ asc ''File is not a zip file'')]"
    using inst [THEN conjunct2, THEN conjunct1] by auto
  have c: "\<exists>st. app_run_agent (Suc 0) stub_env question (Some (asc ''/data/notes.xlsx''))
              = Some (Inr (Some (asc ''The answer is 42.''), st))"
    using inst [THEN conjunct2, THEN conjunct2, THEN conjunct2, THEN conjunct2, THEN mp,
        OF model]
    by (auto simp: final_answer_def)
  show ?thesis using a b c by blast
qed

subsection \<open>The final result and the files copied out\<close>
















end
